theory Spec2Isabelle
  imports Complex_Main "HOL-Library.Word"
begin

unbundle bit_operations_syntax

section \<open>The RPLIDAR A1 driver of 2dplot.py and 3dplot.py\<close>

text \<open>
  Both scripts carry their own copy of the class \<open>RPLidarA1\<close>. The definitions below
  follow the copy in \<open>2dplot.py\<close>; the scan loop of \<open>3dplot.py\<close> is embedded a second
  time, with the suffix \<open>_3d\<close>, where the two copies differ. The other methods of
  \<open>3dplot.py\<close> differ from those of \<open>2dplot.py\<close> in the wording of the exception
  messages only, and \<open>get_health\<close> exists in \<open>2dplot.py\<close> alone.

  Python's \<open>bytes\<close> is a list of 8-bit words; indexing it gives an unbounded Python
  integer, so every shift and bitwise operation of the source is done on \<open>int\<close>
  after \<open>uint\<close>. The divisions \<open>angle / 64.0\<close> and \<open>distance / 4.0\<close> are float
  divisions of an integer below \<open>2 ^ 16\<close> by a power of two. Such a quotient is a dyadic
  rational with a mantissa of at most 16 bits, which binary64 represents without rounding,
  so the quotient in \<open>real\<close> is the value the program holds.
\<close>

subsection \<open>Constants of the class\<close>

type_synonym byte = "8 word"

definition SYNC_BYTE :: int where "SYNC_BYTE = 0xA5"
definition SYNC_BYTE2 :: int where "SYNC_BYTE2 = 0x5A"

definition GET_INFO :: int where "GET_INFO = 0x50"
definition GET_HEALTH :: int where "GET_HEALTH = 0x52"
definition STOP :: int where "STOP = 0x25"
definition RESET :: int where "RESET = 0x40"
definition SCAN :: int where "SCAN = 0x20"
definition EXPRESS_SCAN :: int where "EXPRESS_SCAN = 0x82"

definition DESCRIPTOR_LEN :: nat where "DESCRIPTOR_LEN = 7"
definition INFO_LEN :: nat where "INFO_LEN = 20"
definition HEALTH_LEN :: nat where "HEALTH_LEN = 3"

subsection \<open>Errors and the serial port\<close>

text \<open>
  The driver raises \<open>Exception\<close> with one of two messages; \<open>struct.pack\<close> raises
  \<open>struct.error\<close> when an argument of format \<open>B\<close> is outside \<open>0..255\<close>.
\<close>

datatype error =
    Failed_to_read_descriptor
  | Failed_to_start_scan
  | Struct_error

text \<open>
  The port is the pair of the bytes the device delivers, in order, and the bytes written
  to it. \<open>serial.read(n)\<close> blocks until \<open>n\<close> bytes have arrived or the timeout has
  passed: it returns the next \<open>n\<close> bytes, or all remaining ones when fewer than \<open>n\<close>
  arrive.
\<close>

record serial =
  rx :: "byte list"
  tx :: "byte list"

definition serial_read :: "nat \<Rightarrow> serial \<Rightarrow> byte list \<times> serial" where
  "serial_read n s = (take n (rx s), s\<lparr>rx := drop n (rx s)\<rparr>)"

definition serial_write :: "byte list \<Rightarrow> serial \<Rightarrow> serial" where
  "serial_write req s = s\<lparr>tx := tx s @ req\<rparr>"

text \<open>\<open>data[i]\<close> on \<open>bytes\<close>, for an index the caller has checked to be in range.\<close>

definition byte_at :: "byte list \<Rightarrow> nat \<Rightarrow> int" where
  "byte_at data i = uint (data ! i)"

subsection \<open>Commands\<close>

text \<open>
  \<open>struct.pack('<BB', a, b)\<close>, and the methods \<open>_send_command\<close> and
  \<open>_read_descriptor\<close>, named here without the leading underscore.
\<close>

definition pack_BB :: "int \<Rightarrow> int \<Rightarrow> error + byte list" where
  "pack_BB a b =
     (if 0 \<le> a \<and> a \<le> 255 \<and> 0 \<le> b \<and> b \<le> 255
      then Inr [word_of_int a, word_of_int b]
      else Inl Struct_error)"

definition send_command :: "int \<Rightarrow> serial \<Rightarrow> (error + unit) \<times> serial" where
  "send_command cmd s =
     (case pack_BB SYNC_BYTE cmd of
        Inl e \<Rightarrow> (Inl e, s)
      | Inr req \<Rightarrow> (Inr (), serial_write req s))"

definition read_descriptor :: "serial \<Rightarrow> (error + byte list) \<times> serial" where
  "read_descriptor s =
     (let (descriptor, s') = serial_read DESCRIPTOR_LEN s
      in if length descriptor \<noteq> DESCRIPTOR_LEN
         then (Inl Failed_to_read_descriptor, s')
         else (Inr descriptor, s'))"

subsection \<open>The scan loop\<close>

record sample_3d =
  angle :: real
  distance :: real
  quality :: int

record sample = sample_3d +
  start_flag :: bool

text \<open>The locals of one iteration of \<open>read_scan_data\<close>, for \<open>len(data) == 5\<close>.\<close>

definition frame_quality :: "byte list \<Rightarrow> int" where
  "frame_quality data = drop_bit 2 (byte_at data 0)"

definition frame_start_flag :: "byte list \<Rightarrow> bool" where
  "frame_start_flag data = ((byte_at data 0 AND 0x01) = 1)"

definition frame_angle_raw :: "byte list \<Rightarrow> int" where
  "frame_angle_raw data = drop_bit 1 (push_bit 8 (byte_at data 2) OR byte_at data 1)"

definition frame_angle :: "byte list \<Rightarrow> real" where
  "frame_angle data = real_of_int (frame_angle_raw data) / 64"

definition frame_distance_raw :: "byte list \<Rightarrow> int" where
  "frame_distance_raw data = push_bit 8 (byte_at data 4) OR byte_at data 3"

definition frame_distance :: "byte list \<Rightarrow> real" where
  "frame_distance data = real_of_int (frame_distance_raw data) / 4"

text \<open>What one iteration yields: the sample, or nothing.\<close>

definition decode_frame :: "byte list \<Rightarrow> sample option" where
  "decode_frame data =
     (let quality = frame_quality data;
          start_flag = frame_start_flag data;
          angle = frame_angle data;
          distance = frame_distance data
      in if quality > 0 \<and> distance > 0
         then Some \<lparr>angle = angle, distance = distance, quality = quality,
                    start_flag = start_flag\<rparr>
         else None)"

text \<open>
  \<open>while True\<close> never ends by itself: the fuel counts the iterations of the loop, and the
  result is the list of samples yielded during them, with the port as it is left.
\<close>

fun read_scan_data :: "nat \<Rightarrow> serial \<Rightarrow> sample list \<times> serial" where
  "read_scan_data 0 s = ([], s)"
| "read_scan_data (Suc n) s =
     (let (data, s') = serial_read 5 s;
          (rest, s'') = read_scan_data n s'
      in if length data = 5
         then (case decode_frame data of
                 Some x \<Rightarrow> (x # rest, s'')
               | None \<Rightarrow> (rest, s''))
         else (rest, s''))"

text \<open>
  The loop of \<open>3dplot.py\<close>: the same arithmetic, written out again there, without the
  \<open>start_flag\<close> local and without that key in the yielded dictionary.
\<close>

definition decode_frame_3d :: "byte list \<Rightarrow> sample_3d option" where
  "decode_frame_3d data =
     (let quality = drop_bit 2 (byte_at data 0);
          angle = drop_bit 1 (push_bit 8 (byte_at data 2) OR byte_at data 1);
          angle = real_of_int angle / 64;
          distance = push_bit 8 (byte_at data 4) OR byte_at data 3;
          distance = real_of_int distance / 4
      in if quality > 0 \<and> distance > 0
         then Some \<lparr>angle = angle, distance = distance, quality = quality\<rparr>
         else None)"

fun read_scan_data_3d :: "nat \<Rightarrow> serial \<Rightarrow> sample_3d list \<times> serial" where
  "read_scan_data_3d 0 s = ([], s)"
| "read_scan_data_3d (Suc n) s =
     (let (data, s') = serial_read 5 s;
          (rest, s'') = read_scan_data_3d n s'
      in if length data = 5
         then (case decode_frame_3d data of
                 Some x \<Rightarrow> (x # rest, s'')
               | None \<Rightarrow> (rest, s''))
         else (rest, s''))"

subsection \<open>Starting a scan\<close>

definition start_scan :: "serial \<Rightarrow> (error + unit) \<times> serial" where
  "start_scan s =
     (case send_command SCAN s of
        (Inl e, s1) \<Rightarrow> (Inl e, s1)
      | (Inr _, s1) \<Rightarrow>
          (case read_descriptor s1 of
             (Inl e, s2) \<Rightarrow> (Inl e, s2)
           | (Inr descriptor, s2) \<Rightarrow>
               if byte_at descriptor 0 \<noteq> SYNC_BYTE \<or> byte_at descriptor 1 \<noteq> SYNC_BYTE2
               then (Inl Failed_to_start_scan, s2)
               else (Inr (), s2)))"

text \<open>
  \<open>main()\<close> calls \<open>start_scan()\<close> and only then builds the visualizer, whose \<open>update\<close>
  pulls the samples from \<open>read_scan_data()\<close>. An exception of \<open>start_scan()\<close> leaves the
  \<open>try\<close> block, so no sample is read after it.
\<close>

definition main_scan :: "nat \<Rightarrow> serial \<Rightarrow> (error + sample list) \<times> serial" where
  "main_scan n s =
     (case start_scan s of
        (Inl e, s1) \<Rightarrow> (Inl e, s1)
      | (Inr _, s1) \<Rightarrow> (let (samples, s2) = read_scan_data n s1 in (Inr samples, s2)))"

subsection \<open>Device information and health\<close>

text \<open>\<open>str(n)\<close> for an integer and \<open>bytes.hex()\<close>.\<close>

definition digits :: string where
  "digits = ''0123456789abcdef''"

fun str_nat :: "nat \<Rightarrow> string" where
  "str_nat n = (if n < 10 then [digits ! n] else str_nat (n div 10) @ [digits ! (n mod 10)])"

declare str_nat.simps [simp del]

definition str_int :: "int \<Rightarrow> string" where
  "str_int i = (if i < 0 then CHR ''-'' # str_nat (nat (- i)) else str_nat (nat i))"

definition hex_byte :: "byte \<Rightarrow> string" where
  "hex_byte b = [digits ! (unat b div 16), digits ! (unat b mod 16)]"

definition hex :: "byte list \<Rightarrow> string" where
  "hex bs = concat (map hex_byte bs)"

record device_info =
  model :: int
  firmware :: string
  hardware :: int
  serial_number :: string

record health =
  status :: int
  error_code :: int

text \<open>\<open>struct.unpack('<BBBB16s', data)\<close> and the dictionary built from it, for 20 bytes.\<close>

definition unpack_info :: "byte list \<Rightarrow> device_info" where
  "unpack_info data =
     (let model = byte_at data 0;
          firmware_minor = byte_at data 1;
          firmware_major = byte_at data 2;
          hardware = byte_at data 3;
          serial_number = take 16 (drop 4 data)
      in \<lparr>model = model,
          firmware = str_int firmware_major @ ''.'' @ str_int firmware_minor,
          hardware = hardware,
          serial_number = hex serial_number\<rparr>)"

definition get_info :: "serial \<Rightarrow> (error + device_info option) \<times> serial" where
  "get_info s =
     (case send_command GET_INFO s of
        (Inl e, s1) \<Rightarrow> (Inl e, s1)
      | (Inr _, s1) \<Rightarrow>
          (case read_descriptor s1 of
             (Inl e, s2) \<Rightarrow> (Inl e, s2)
           | (Inr descriptor, s2) \<Rightarrow>
               (let (data, s3) = serial_read INFO_LEN s2
                in if length data = INFO_LEN
                   then (Inr (Some (unpack_info data)), s3)
                   else (Inr None, s3))))"

text \<open>\<open>struct.unpack('<BH', data)\<close>, for 3 bytes: a byte, then 16 bits, low byte first.\<close>

definition unpack_health :: "byte list \<Rightarrow> health" where
  "unpack_health data =
     \<lparr>status = byte_at data 0,
      error_code = byte_at data 1 + 256 * byte_at data 2\<rparr>"

definition get_health :: "serial \<Rightarrow> (error + health option) \<times> serial" where
  "get_health s =
     (case send_command GET_HEALTH s of
        (Inl e, s1) \<Rightarrow> (Inl e, s1)
      | (Inr _, s1) \<Rightarrow>
          (case read_descriptor s1 of
             (Inl e, s2) \<Rightarrow> (Inl e, s2)
           | (Inr descriptor, s2) \<Rightarrow>
               (let (data, s3) = serial_read HEALTH_LEN s2
                in if length data = HEALTH_LEN
                   then (Inr (Some (unpack_health data)), s3)
                   else (Inr None, s3))))"

section \<open>Properties\<close>

subsection \<open>Helper facts\<close>

lemma byte_at_bounds: "0 \<le> byte_at data i" "byte_at data i < 256"
proof -
  show "0 \<le> byte_at data i" by (simp add: byte_at_def)
  have "uint (data ! i) < 2 ^ LENGTH(8)" by (rule uint_lt2p)
  then show "byte_at data i < 256" by (simp add: byte_at_def)
qed

lemma join16_bounds:
  assumes "0 \<le> hi" "hi < 256" "0 \<le> lo" "lo < 256"
  shows "0 \<le> push_bit 8 hi OR lo" and "push_bit 8 hi OR lo < (65536::int)"
proof -
  have h: "0 \<le> push_bit 8 hi" using assms by simp
  show "0 \<le> push_bit 8 hi OR lo" using h assms by simp
  have "push_bit 8 hi < 2 ^ 16" using assms by (simp add: push_bit_eq_mult)
  moreover have "lo < 2 ^ 16" using assms by simp
  ultimately have "push_bit 8 hi OR lo < 2 ^ 16"
    using h by (intro OR_upper) auto
  then show "push_bit 8 hi OR lo < (65536::int)" by simp
qed

lemma frame_distance_raw_bounds:
  "0 \<le> frame_distance_raw data" "frame_distance_raw data < 65536"
  unfolding frame_distance_raw_def
  by (rule join16_bounds; rule byte_at_bounds)+

lemma frame_angle_raw_bounds:
  "0 \<le> frame_angle_raw data" "frame_angle_raw data < 32768"
proof -
  let ?w = "push_bit 8 (byte_at data 2) OR byte_at data 1"
  have a: "0 \<le> ?w" and b: "?w < 65536"
    by (rule join16_bounds; rule byte_at_bounds)+
  have e: "frame_angle_raw data = ?w div 2"
    by (simp add: frame_angle_raw_def drop_bit_eq_div)
  show "0 \<le> frame_angle_raw data" using a e by simp
  show "frame_angle_raw data < 32768" using b e by simp
qed

text \<open>Once fewer than five bytes are left, no iteration yields anything.\<close>

lemma read_scan_data_short:
  "length (rx s) < 5 \<Longrightarrow> fst (read_scan_data n s) = []"
proof (induction n arbitrary: s)
  case 0
  then show ?case by simp
next
  case (Suc n)
  have "length (rx (snd (serial_read 5 s))) < 5"
    using Suc.prems by (simp add: serial_read_def)
  from Suc.IH [OF this] Suc.prems show ?case
    by (simp add: serial_read_def split_beta)
qed

text \<open>One iteration on a port whose next five bytes are \<open>data\<close>.\<close>

lemma read_scan_data_frame:
  assumes "length data = 5"
  shows "fst (read_scan_data (Suc n) (s\<lparr>rx := data @ rest\<rparr>))
         = (case decode_frame data of Some x \<Rightarrow> [x] | None \<Rightarrow> [])
           @ fst (read_scan_data n (s\<lparr>rx := rest\<rparr>))"
  using assms by (simp add: serial_read_def split_beta split: option.split)

lemma frame_example_values:
  "frame_quality [0x05, 0x40, 0x20, 0xE8, 0x03] = 1"
  "frame_start_flag [0x05, 0x40, 0x20, 0xE8, 0x03] = True"
  "frame_angle_raw [0x05, 0x40, 0x20, 0xE8, 0x03] = 4128"
  "frame_distance_raw [0x05, 0x40, 0x20, 0xE8, 0x03] = 1000"
  by (simp_all add: frame_quality_def frame_start_flag_def frame_angle_raw_def
      frame_distance_raw_def byte_at_def drop_bit_eq_div push_bit_eq_mult)

lemma frame_overrange_values:
  "frame_quality [0x04, 0xFF, 0xFF, 0x01, 0x00] = 1"
  "frame_start_flag [0x04, 0xFF, 0xFF, 0x01, 0x00] = False"
  "frame_angle_raw [0x04, 0xFF, 0xFF, 0x01, 0x00] = 32767"
  "frame_distance_raw [0x04, 0xFF, 0xFF, 0x01, 0x00] = 1"
  by (simp_all add: frame_quality_def frame_start_flag_def frame_angle_raw_def
      frame_distance_raw_def byte_at_def drop_bit_eq_div push_bit_eq_mult)

text \<open>The locals of one iteration on a frame \<open>[b0, b1, b2, b3, b4]\<close>.\<close>

lemma frame_locals:
  "frame_quality [b0, b1, b2, b3, b4] = drop_bit 2 (uint b0)"
  "frame_start_flag [b0, b1, b2, b3, b4] = (uint b0 AND 1 = 1)"
  "frame_angle [b0, b1, b2, b3, b4]
     = real_of_int (drop_bit 1 (push_bit 8 (uint b2) OR uint b1)) / 64"
  "frame_distance [b0, b1, b2, b3, b4]
     = real_of_int (push_bit 8 (uint b4) OR uint b3) / 4"
  by (simp_all add: frame_quality_def frame_start_flag_def frame_angle_def
      frame_angle_raw_def frame_distance_def frame_distance_raw_def byte_at_def)

text \<open>The loop of \<open>3dplot.py\<close> in terms of the loop of \<open>2dplot.py\<close>.\<close>

lemma decode_frame_3d_truncate:
  "decode_frame_3d data = map_option sample_3d.truncate (decode_frame data)"
  by (simp add: decode_frame_3d_def decode_frame_def frame_quality_def frame_angle_def
      frame_angle_raw_def frame_distance_def frame_distance_raw_def Let_def
      sample_3d.truncate_def)

lemma read_scan_data_3d_truncate:
  "read_scan_data_3d n s
   = (map sample_3d.truncate (fst (read_scan_data n s)), snd (read_scan_data n s))"
proof (induction n arbitrary: s)
  case 0
  show ?case by simp
next
  case (Suc n)
  show ?case
    by (simp add: Suc.IH [of "snd (serial_read 5 s)"] decode_frame_3d_truncate split_beta
        split: option.split)
qed

subsection \<open>The scan frame decoder\<close>

text \<open>
  C1. For every frame \<open>[b0, b1, b2, b3, b4]\<close> the sample that the decoder of either
  script yields, when the frame passes the filter, has the quality \<open>b0 >> 2\<close>, the angle
  \<open>(((b2 << 8) | b1) >> 1) / 64\<close> degrees and the distance \<open>((b4 << 8) | b3) / 4\<close>
  millimetres, and in \<open>2dplot.py\<close> the new-scan flag \<open>(b0 & 1) == 1\<close>; the filter itself
  tests these values of the quality and the distance. A run of the loop on a port that
  delivers the frame yields this sample and no other.
\<close>

theorem scan_frame_fields:
  "decode_frame [b0, b1, b2, b3, b4]
     = (if 0 < drop_bit 2 (uint b0) \<and> 0 < real_of_int (push_bit 8 (uint b4) OR uint b3) / 4
        then Some \<lparr>angle = real_of_int (drop_bit 1 (push_bit 8 (uint b2) OR uint b1)) / 64,
                   distance = real_of_int (push_bit 8 (uint b4) OR uint b3) / 4,
                   quality = drop_bit 2 (uint b0),
                   start_flag = (uint b0 AND 1 = 1)\<rparr>
        else None)
   \<and> decode_frame_3d [b0, b1, b2, b3, b4]
     = (if 0 < drop_bit 2 (uint b0) \<and> 0 < real_of_int (push_bit 8 (uint b4) OR uint b3) / 4
        then Some \<lparr>angle = real_of_int (drop_bit 1 (push_bit 8 (uint b2) OR uint b1)) / 64,
                   distance = real_of_int (push_bit 8 (uint b4) OR uint b3) / 4,
                   quality = drop_bit 2 (uint b0)\<rparr>
        else None)
   \<and> fst (read_scan_data (Suc n) \<lparr>rx = [b0, b1, b2, b3, b4], tx = t\<rparr>)
     = (if 0 < drop_bit 2 (uint b0) \<and> 0 < real_of_int (push_bit 8 (uint b4) OR uint b3) / 4
        then [\<lparr>angle = real_of_int (drop_bit 1 (push_bit 8 (uint b2) OR uint b1)) / 64,
               distance = real_of_int (push_bit 8 (uint b4) OR uint b3) / 4,
               quality = drop_bit 2 (uint b0),
               start_flag = (uint b0 AND 1 = 1)\<rparr>]
        else [])
   \<and> fst (read_scan_data_3d (Suc n) \<lparr>rx = [b0, b1, b2, b3, b4], tx = t\<rparr>)
     = (if 0 < drop_bit 2 (uint b0) \<and> 0 < real_of_int (push_bit 8 (uint b4) OR uint b3) / 4
        then [\<lparr>angle = real_of_int (drop_bit 1 (push_bit 8 (uint b2) OR uint b1)) / 64,
               distance = real_of_int (push_bit 8 (uint b4) OR uint b3) / 4,
               quality = drop_bit 2 (uint b0)\<rparr>]
        else [])"
proof -
  let ?f = "[b0, b1, b2, b3, b4]"
  have d: "decode_frame ?f
     = (if 0 < drop_bit 2 (uint b0) \<and> 0 < real_of_int (push_bit 8 (uint b4) OR uint b3) / 4
        then Some \<lparr>angle = real_of_int (drop_bit 1 (push_bit 8 (uint b2) OR uint b1)) / 64,
                   distance = real_of_int (push_bit 8 (uint b4) OR uint b3) / 4,
                   quality = drop_bit 2 (uint b0),
                   start_flag = (uint b0 AND 1 = 1)\<rparr>
        else None)"
    by (simp add: decode_frame_def frame_locals Let_def)
  have d3: "decode_frame_3d ?f
     = (if 0 < drop_bit 2 (uint b0) \<and> 0 < real_of_int (push_bit 8 (uint b4) OR uint b3) / 4
        then Some \<lparr>angle = real_of_int (drop_bit 1 (push_bit 8 (uint b2) OR uint b1)) / 64,
                   distance = real_of_int (push_bit 8 (uint b4) OR uint b3) / 4,
                   quality = drop_bit 2 (uint b0)\<rparr>
        else None)"
    by (simp add: decode_frame_3d_def byte_at_def Let_def)
  have l: "length ?f = 5" by simp
  have e: "fst (read_scan_data n \<lparr>rx = [], tx = t\<rparr>) = []"
    by (rule read_scan_data_short) simp
  from read_scan_data_frame
    [OF l, where n = n and s = "\<lparr>rx = [], tx = t\<rparr>" and rest = "[]"]
  have r: "fst (read_scan_data (Suc n) \<lparr>rx = ?f, tx = t\<rparr>)
        = (case decode_frame ?f of Some x \<Rightarrow> [x] | None \<Rightarrow> [])"
    by (simp add: e)
  have r3: "fst (read_scan_data_3d (Suc n) \<lparr>rx = ?f, tx = t\<rparr>)
        = (case decode_frame_3d ?f of Some x \<Rightarrow> [x] | None \<Rightarrow> [])"
    unfolding read_scan_data_3d_truncate r decode_frame_3d_truncate
    by (simp split: option.split)
  show ?thesis
    unfolding r r3 unfolding d d3 by simp
qed

text \<open>The frame \<open>[0x05, 0x40, 0x20, 0xE8, 0x03]\<close> passes the filter.\<close>

theorem scan_frame_fields_witness:
  "decode_frame [0x05, 0x40, 0x20, 0xE8, 0x03]
     = Some \<lparr>angle = 4128 / 64, distance = 1000 / 4, quality = 1, start_flag = True\<rparr>
   \<and> decode_frame_3d [0x05, 0x40, 0x20, 0xE8, 0x03]
     = Some \<lparr>angle = 4128 / 64, distance = 1000 / 4, quality = 1\<rparr>
   \<and> fst (read_scan_data (Suc 0) \<lparr>rx = [0x05, 0x40, 0x20, 0xE8, 0x03], tx = []\<rparr>)
     = [\<lparr>angle = 4128 / 64, distance = 1000 / 4, quality = 1, start_flag = True\<rparr>]
   \<and> fst (read_scan_data_3d (Suc 0) \<lparr>rx = [0x05, 0x40, 0x20, 0xE8, 0x03], tx = []\<rparr>)
     = [\<lparr>angle = 4128 / 64, distance = 1000 / 4, quality = 1\<rparr>]"
proof -
  have q: "drop_bit 2 (uint (0x05 :: byte)) = 1"
    by (simp add: drop_bit_eq_div)
  have f: "(uint (0x05 :: byte) AND 1 = 1) = True"
    by simp
  have a: "drop_bit 1 (push_bit 8 (uint (0x20 :: byte)) OR uint (0x40 :: byte)) = 4128"
    by (simp add: drop_bit_eq_div push_bit_eq_mult)
  have d: "push_bit 8 (uint (0x03 :: byte)) OR uint (0xE8 :: byte) = 1000"
    by (simp add: push_bit_eq_mult)
  show ?thesis
    using scan_frame_fields
      [where ?b0.0 = "0x05" and ?b1.0 = "0x40" and ?b2.0 = "0x20" and ?b3.0 = "0xE8"
         and ?b4.0 = "0x03" and n = 0 and t = "[]"]
    unfolding q f a d by simp
qed

text \<open>
  C2. A 5-byte frame whose quality is 0 or whose distance is 0 yields no sample, and the
  loop goes on with the bytes after it: the samples of the run are those of the rest of
  the stream. The loop has no error result at all. The frame
  \<open>[0x01, 0x00, 0x20, 0xE8, 0x03]\<close> has quality 0 and is such a frame.
\<close>

theorem zero_quality_or_distance_dropped:
  assumes "length data = 5"
    and "frame_quality data = 0 \<or> frame_distance data = 0"
  shows "decode_frame data = None
         \<and> fst (read_scan_data (Suc n) (s\<lparr>rx := data @ rest\<rparr>))
             = fst (read_scan_data n (s\<lparr>rx := rest\<rparr>))"
proof -
  from assms(2) have d: "decode_frame data = None"
    by (auto simp: decode_frame_def)
  with read_scan_data_frame [OF assms(1), where n = n and s = s and rest = rest]
  show ?thesis by simp
qed

theorem zero_quality_frame_witness:
  "length [0x01, 0x00, 0x20, 0xE8, 0x03 :: byte] = 5
   \<and> frame_quality [0x01, 0x00, 0x20, 0xE8, 0x03] = 0
   \<and> decode_frame [0x01, 0x00, 0x20, 0xE8, 0x03] = None
   \<and> fst (read_scan_data (Suc 0) \<lparr>rx = [0x01, 0x00, 0x20, 0xE8, 0x03], tx = []\<rparr>) = []"
proof -
  have l: "length [0x01, 0x00, 0x20, 0xE8, 0x03 :: byte] = 5" by simp
  have q: "frame_quality [0x01, 0x00, 0x20, 0xE8, 0x03] = 0"
    by (simp add: frame_quality_def byte_at_def drop_bit_eq_div)
  from q have h: "frame_quality [0x01, 0x00, 0x20, 0xE8, 0x03] = 0
      \<or> frame_distance [0x01, 0x00, 0x20, 0xE8, 0x03] = 0" ..
  from zero_quality_or_distance_dropped
    [OF l h, where n = 0 and s = "\<lparr>rx = [], tx = []\<rparr>" and rest = "[]"] l q
  show ?thesis by simp
qed

text \<open>
  C3, as amended. The frame \<open>[0x05, 0x40, 0x20, 0xE8, 0x03]\<close> yields exactly one sample,
  with quality 1, distance 250 mm and the new-scan flag set, and with the angle 64.5
  degrees: \<open>(0x20 << 8) | 0x40\<close> is \<open>0x2040\<close>, half of it is 4128, and 4128 / 64 is 64.5.
  However many further iterations run on the then silent port, the sample stays the
  only one.
\<close>

theorem concrete_frame_sample:
  "decode_frame [0x05, 0x40, 0x20, 0xE8, 0x03]
     = Some \<lparr>angle = 64.5, distance = 250, quality = 1, start_flag = True\<rparr>
   \<and> fst (read_scan_data (Suc n) \<lparr>rx = [0x05, 0x40, 0x20, 0xE8, 0x03], tx = t\<rparr>)
     = [\<lparr>angle = 64.5, distance = 250, quality = 1, start_flag = True\<rparr>]"
proof -
  let ?f = "[0x05, 0x40, 0x20, 0xE8, 0x03 :: byte]"
  have d: "decode_frame ?f
     = Some \<lparr>angle = 64.5, distance = 250, quality = 1, start_flag = True\<rparr>"
    by (simp add: decode_frame_def frame_angle_def frame_distance_def frame_example_values)
  have "length ?f = 5" by simp
  from read_scan_data_frame
    [OF this, where n = n and s = "\<lparr>rx = [], tx = t\<rparr>" and rest = "[]"]
  have "fst (read_scan_data (Suc n) \<lparr>rx = ?f, tx = t\<rparr>)
        = (case decode_frame ?f of Some x \<Rightarrow> [x] | None \<Rightarrow> [])
          @ fst (read_scan_data n \<lparr>rx = [], tx = t\<rparr>)"
    by simp
  moreover have "fst (read_scan_data n \<lparr>rx = [], tx = t\<rparr>) = []"
    by (rule read_scan_data_short) simp
  ultimately show ?thesis using d by simp
qed

text \<open>The angle of that sample is not 32.25 degrees.\<close>

theorem concrete_frame_angle_counterexample:
  "decode_frame [0x05, 0x40, 0x20, 0xE8, 0x03] \<noteq> None
   \<and> angle (the (decode_frame [0x05, 0x40, 0x20, 0xE8, 0x03])) \<noteq> 32.25"
  by (simp add: decode_frame_def frame_angle_def frame_distance_def frame_example_values)

text \<open>
  C4, as amended. Every sample yielded for a 5-byte frame has its angle in \<open>[0, 512)\<close>
  degrees and a distance that is not negative. The angle field has 15 bits and the loop
  does not reduce it modulo 360, so 360 is not a bound.
\<close>

theorem sample_ranges:
  assumes "length data = 5" and "decode_frame data = Some s"
  shows "0 \<le> angle s \<and> angle s < 512 \<and> 0 \<le> distance s"
proof -
  from assms(2) have a: "angle s = real_of_int (frame_angle_raw data) / 64"
    and d: "0 < distance s"
    by (auto simp: decode_frame_def frame_angle_def Let_def split: if_splits)
  have "0 \<le> real_of_int (frame_angle_raw data)"
    using frame_angle_raw_bounds(1) [of data] by simp
  moreover have "real_of_int (frame_angle_raw data) < 32768"
    using frame_angle_raw_bounds(2) [of data] by linarith
  ultimately show ?thesis using a d by simp
qed

theorem sample_ranges_witness:
  "length [0x04, 0xFF, 0xFF, 0x01, 0x00 :: byte] = 5
   \<and> decode_frame [0x04, 0xFF, 0xFF, 0x01, 0x00]
       = Some \<lparr>angle = 32767 / 64, distance = 1 / 4, quality = 1, start_flag = False\<rparr>
   \<and> (0::real) \<le> 32767 / 64 \<and> (32767 / 64 :: real) < 512 \<and> (0::real) \<le> 1 / 4"
proof -
  have l: "length [0x04, 0xFF, 0xFF, 0x01, 0x00 :: byte] = 5" by simp
  have d: "decode_frame [0x04, 0xFF, 0xFF, 0x01, 0x00]
       = Some \<lparr>angle = 32767 / 64, distance = 1 / 4, quality = 1, start_flag = False\<rparr>"
    by (simp add: decode_frame_def frame_angle_def frame_distance_def frame_overrange_values)
  from sample_ranges [OF l d] l d show ?thesis by simp
qed

text \<open>
  The frame \<open>[0x04, 0xFF, 0xFF, 0x01, 0x00]\<close> passes the filter and its angle,
  32767 / 64 degrees, is not below 360.
\<close>

theorem angle_below_360_counterexample:
  "decode_frame [0x04, 0xFF, 0xFF, 0x01, 0x00] \<noteq> None
   \<and> \<not> angle (the (decode_frame [0x04, 0xFF, 0xFF, 0x01, 0x00])) < 360"
  by (simp add: decode_frame_def frame_angle_def frame_distance_def frame_overrange_values)

subsection \<open>Sending a command, reading a descriptor\<close>

lemma send_command_opcode:
  assumes "0 \<le> cmd" "cmd \<le> 255"
  shows "send_command cmd s = (Inr (), s\<lparr>tx := tx s @ [0xA5, word_of_int cmd]\<rparr>)"
  using assms by (simp add: send_command_def pack_BB_def SYNC_BYTE_def serial_write_def)

lemma read_descriptor_full:
  assumes "length descriptor = 7"
  shows "read_descriptor (s\<lparr>rx := descriptor @ rest\<rparr>)
         = (Inr descriptor, s\<lparr>rx := rest\<rparr>)"
  using assms by (simp add: read_descriptor_def serial_read_def DESCRIPTOR_LEN_def)

lemma byte_at_eq_iff: "byte_at data i = uint (w :: byte) \<longleftrightarrow> data ! i = w"
  by (simp add: byte_at_def flip: word_uint_eq_iff)

subsection \<open>Starting a scan\<close>

text \<open>
  C5. When the seven bytes of the descriptor that answers the Scan command do not start
  with \<open>0xA5, 0x5A\<close>, \<open>start_scan\<close> raises its own exception ("Failed to start scan",
  the error the specification calls UnexpectedSyncBytes), having written the command and
  consumed the descriptor, and \<open>main\<close> reads no sample after it.
\<close>

theorem start_scan_bad_sync:
  assumes "rx s = descriptor @ rest" and "length descriptor = 7"
    and "descriptor ! 0 \<noteq> 0xA5 \<or> descriptor ! 1 \<noteq> 0x5A"
  shows "start_scan s = (Inl Failed_to_start_scan, s\<lparr>rx := rest, tx := tx s @ [0xA5, 0x20]\<rparr>)
         \<and> fst (main_scan n s) = Inl Failed_to_start_scan"
proof -
  have c: "send_command SCAN s = (Inr (), s\<lparr>tx := tx s @ [0xA5, 0x20]\<rparr>)"
    using send_command_opcode [of SCAN s] by (simp add: SCAN_def)
  have "s\<lparr>tx := tx s @ [0xA5, 0x20]\<rparr> = s\<lparr>tx := tx s @ [0xA5, 0x20], rx := descriptor @ rest\<rparr>"
    using assms(1) by simp
  then have r: "read_descriptor (s\<lparr>tx := tx s @ [0xA5, 0x20]\<rparr>)
      = (Inr descriptor, s\<lparr>tx := tx s @ [0xA5, 0x20], rx := rest\<rparr>)"
    using read_descriptor_full
      [OF assms(2), where s = "s\<lparr>tx := tx s @ [0xA5, 0x20]\<rparr>" and rest = rest]
    by simp
  have a: "SYNC_BYTE = uint (0xA5 :: byte)" and b: "SYNC_BYTE2 = uint (0x5A :: byte)"
    by (simp_all add: SYNC_BYTE_def SYNC_BYTE2_def)
  have bad: "byte_at descriptor 0 \<noteq> SYNC_BYTE \<or> byte_at descriptor 1 \<noteq> SYNC_BYTE2"
    unfolding a b byte_at_eq_iff using assms(3) .
  have st: "start_scan s
      = (Inl Failed_to_start_scan, s\<lparr>rx := rest, tx := tx s @ [0xA5, 0x20]\<rparr>)"
    using bad by (simp add: start_scan_def c r)
  then show ?thesis by (simp add: main_scan_def)
qed

theorem start_scan_bad_sync_witness:
  "fst (start_scan \<lparr>rx = [0xA5, 0x5B, 0x05, 0x00, 0x00, 0x40, 0x81,
                          0x05, 0x40, 0x20, 0xE8, 0x03], tx = []\<rparr>) = Inl Failed_to_start_scan
   \<and> fst (main_scan 1 \<lparr>rx = [0xA5, 0x5B, 0x05, 0x00, 0x00, 0x40, 0x81,
                           0x05, 0x40, 0x20, 0xE8, 0x03], tx = []\<rparr>) = Inl Failed_to_start_scan"
proof -
  let ?d = "[0xA5, 0x5B, 0x05, 0x00, 0x00, 0x40, 0x81 :: byte]"
  let ?r = "[0x05, 0x40, 0x20, 0xE8, 0x03 :: byte]"
  let ?s = "\<lparr>rx = ?d @ ?r, tx = []\<rparr>"
  have h1: "rx ?s = ?d @ ?r" by simp
  have h2: "length ?d = 7" by simp
  have h3: "?d ! 0 \<noteq> 0xA5 \<or> ?d ! 1 \<noteq> 0x5A" by simp
  from start_scan_bad_sync [OF h1 h2 h3, of 1] show ?thesis by simp
qed

text \<open>With the two sync bytes in place \<open>start_scan\<close> returns normally.\<close>

lemma start_scan_good_sync:
  assumes "rx s = [0xA5, 0x5A, d2, d3, d4, d5, d6] @ rest"
  shows "start_scan s = (Inr (), s\<lparr>rx := rest, tx := tx s @ [0xA5, 0x20]\<rparr>)"
proof -
  let ?d = "[0xA5, 0x5A, d2, d3, d4, d5, d6]"
  have c: "send_command SCAN s = (Inr (), s\<lparr>tx := tx s @ [0xA5, 0x20]\<rparr>)"
    using send_command_opcode [of SCAN s] by (simp add: SCAN_def)
  have "s\<lparr>tx := tx s @ [0xA5, 0x20]\<rparr> = s\<lparr>tx := tx s @ [0xA5, 0x20], rx := ?d @ rest\<rparr>"
    using assms(1) by simp
  then have r: "read_descriptor (s\<lparr>tx := tx s @ [0xA5, 0x20]\<rparr>)
      = (Inr ?d, s\<lparr>tx := tx s @ [0xA5, 0x20], rx := rest\<rparr>)"
    using read_descriptor_full
      [where descriptor = ?d and s = "s\<lparr>tx := tx s @ [0xA5, 0x20]\<rparr>" and rest = rest]
    by simp
  show ?thesis
    by (simp add: start_scan_def c r byte_at_def SYNC_BYTE_def SYNC_BYTE2_def)
qed


subsection \<open>Device information and health\<close>

text \<open>
  After a complete descriptor, whose content neither method looks at, the result depends
  on the payload alone.
\<close>

lemma get_info_after_descriptor:
  assumes "rx s = descriptor @ payload" and "length descriptor = 7"
  shows "get_info s =
     (if length (take 20 payload) = 20
      then Inr (Some (unpack_info (take 20 payload)))
      else Inr None,
      s\<lparr>rx := drop 20 payload, tx := tx s @ [0xA5, 0x50]\<rparr>)"
proof -
  let ?s1 = "s\<lparr>tx := tx s @ [0xA5, 0x50]\<rparr>"
  have c: "send_command GET_INFO s = (Inr (), ?s1)"
    using send_command_opcode [of GET_INFO s] by (simp add: GET_INFO_def)
  have "?s1 = ?s1\<lparr>rx := descriptor @ payload\<rparr>"
    using assms(1) by simp
  then have r: "read_descriptor ?s1 = (Inr descriptor, ?s1\<lparr>rx := payload\<rparr>)"
    using read_descriptor_full [OF assms(2), where s = ?s1 and rest = payload]
    by simp
  show ?thesis
    by (simp add: get_info_def c r serial_read_def INFO_LEN_def)
qed

lemma get_health_after_descriptor:
  assumes "rx s = descriptor @ payload" and "length descriptor = 7"
  shows "get_health s =
     (if length (take 3 payload) = 3
      then Inr (Some (unpack_health (take 3 payload)))
      else Inr None,
      s\<lparr>rx := drop 3 payload, tx := tx s @ [0xA5, 0x52]\<rparr>)"
proof -
  let ?s1 = "s\<lparr>tx := tx s @ [0xA5, 0x52]\<rparr>"
  have c: "send_command GET_HEALTH s = (Inr (), ?s1)"
    using send_command_opcode [of GET_HEALTH s] by (simp add: GET_HEALTH_def)
  have "?s1 = ?s1\<lparr>rx := descriptor @ payload\<rparr>"
    using assms(1) by simp
  then have r: "read_descriptor ?s1 = (Inr descriptor, ?s1\<lparr>rx := payload\<rparr>)"
    using read_descriptor_full [OF assms(2), where s = ?s1 and rest = payload]
    by simp
  show ?thesis
    by (simp add: get_health_def c r serial_read_def HEALTH_LEN_def)
qed

text \<open>
  C6, as amended. When the descriptor has arrived and fewer payload bytes follow than the
  reply needs (fewer than 20 for the device information, fewer than 3 for the health
  status), \<open>get_info\<close> and \<open>get_health\<close> raise nothing and return \<open>None\<close>: nothing is
  decoded from the truncated payload.
\<close>

theorem short_payload_returns_None:
  assumes "rx s = descriptor @ payload" and "length descriptor = 7"
  shows "(length payload < 20 \<longrightarrow> fst (get_info s) = Inr None)
         \<and> (length payload < 3 \<longrightarrow> fst (get_health s) = Inr None)"
  by (simp add: get_info_after_descriptor [OF assms] get_health_after_descriptor [OF assms])

theorem short_payload_returns_None_witness:
  "length [0x12, 0x05 :: byte] < 20 \<and> length [0x12, 0x05 :: byte] < 3
   \<and> fst (get_info \<lparr>rx = [0xA5, 0x5A, 0x14, 0x00, 0x00, 0x00, 0x04, 0x12, 0x05],
                      tx = []\<rparr>) = Inr None
   \<and> fst (get_health \<lparr>rx = [0xA5, 0x5A, 0x14, 0x00, 0x00, 0x00, 0x04, 0x12, 0x05],
                        tx = []\<rparr>) = Inr None"
proof -
  let ?d = "[0xA5, 0x5A, 0x14, 0x00, 0x00, 0x00, 0x04 :: byte]"
  let ?p = "[0x12, 0x05 :: byte]"
  have h1: "rx \<lparr>rx = ?d @ ?p, tx = []\<rparr> = ?d @ ?p" by simp
  have h2: "length ?d = 7" by simp
  from short_payload_returns_None [OF h1 h2] show ?thesis by simp
qed

text \<open>
  With two payload bytes after the descriptor neither method ends in an exception.
\<close>

theorem short_payload_no_error_counterexample:
  "\<not> isl (fst (get_info \<lparr>rx = [0xA5, 0x5A, 0x14, 0x00, 0x00, 0x00, 0x04, 0x12, 0x05],
                           tx = []\<rparr>))
   \<and> \<not> isl (fst (get_health \<lparr>rx = [0xA5, 0x5A, 0x03, 0x00, 0x00, 0x00, 0x06, 0x00, 0x00],
                               tx = []\<rparr>))"
proof -
  let ?d = "[0xA5, 0x5A, 0x14, 0x00, 0x00, 0x00, 0x04 :: byte]"
  let ?e = "[0xA5, 0x5A, 0x03, 0x00, 0x00, 0x00, 0x06 :: byte]"
  have "fst (get_info \<lparr>rx = ?d @ [0x12, 0x05], tx = []\<rparr>) = Inr None"
    by (subst get_info_after_descriptor [where descriptor = ?d and payload = "[0x12, 0x05]"])
      simp_all
  moreover have "fst (get_health \<lparr>rx = ?e @ [0x00, 0x00], tx = []\<rparr>) = Inr None"
    by (subst get_health_after_descriptor [where descriptor = ?e and payload = "[0x00, 0x00]"])
      simp_all
  ultimately show ?thesis by simp
qed

subsection \<open>Re-quantizing a sample\<close>




subsection \<open>A device information payload\<close>

lemma str_int_digit: "0 \<le> i \<Longrightarrow> i < 10 \<Longrightarrow> str_int i = [digits ! nat i]"
  by (simp add: str_int_def str_nat.simps)

lemma hex_zeros: "hex (replicate n 0) = replicate (2 * n) CHR ''0''"
  by (induction n) (simp_all add: hex_def hex_byte_def digits_def)

lemma info_example:
  "unpack_info ([18, 5, 1, 0] @ replicate 16 0)
   = \<lparr>model = 18, firmware = ''1.5'', hardware = 0,
      serial_number = ''00000000000000000000000000000000''\<rparr>"
proof -
  have t: "take 16 (drop 4 ([18, 5, 1, 0] @ replicate 16 (0::byte))) = replicate 16 0"
    by simp
  have z: "replicate (2 * 16) CHR ''0'' = ''00000000000000000000000000000000''"
    by code_simp
  have f: "str_int 1 = ''1''" "str_int 5 = ''5''"
    by (simp_all add: str_int_digit digits_def)
  show ?thesis
    unfolding unpack_info_def Let_def t hex_zeros z
    by (simp add: byte_at_def f)
qed

text \<open>
  C8. The payload \<open>18, 5, 1, 0\<close> followed by 16 zero bytes decodes to model 18, firmware
  \<open>1.5\<close> (the major number is the third byte, the minor number the second), hardware 0
  and a serial number of 32 characters \<open>0\<close>; \<open>get_info\<close> returns it after any
  descriptor.
\<close>

theorem get_info_example:
  "unpack_info ([18, 5, 1, 0] @ replicate 16 0)
     = \<lparr>model = 18, firmware = ''1.5'', hardware = 0,
        serial_number = ''00000000000000000000000000000000''\<rparr>
   \<and> fst (get_info \<lparr>rx = [d0, d1, d2, d3, d4, d5, d6] @ [18, 5, 1, 0] @ replicate 16 0,
                      tx = t\<rparr>)
     = Inr (Some \<lparr>model = 18, firmware = ''1.5'', hardware = 0,
                   serial_number = ''00000000000000000000000000000000''\<rparr>)"
proof -
  let ?d = "[d0, d1, d2, d3, d4, d5, d6]"
  let ?p = "[18, 5, 1, 0] @ replicate 16 (0::byte)"
  have "fst (get_info \<lparr>rx = ?d @ ?p, tx = t\<rparr>) = Inr (Some (unpack_info ?p))"
    by (subst get_info_after_descriptor [where descriptor = ?d and payload = ?p])
      simp_all
  then show ?thesis by (simp only: info_example simp_thms)
qed

subsection \<open>Command frames\<close>

text \<open>
  C9. For each of the commands GetInfo, GetHealth, Stop, Reset and Scan the request is the
  two bytes \<open>0xA5\<close> and the opcode (\<open>0x50\<close>, \<open>0x52\<close>, \<open>0x25\<close>, \<open>0x40\<close>, \<open>0x20\<close>);
  packing it cannot fail, and sending it appends these two bytes to the output and
  changes nothing else.
\<close>

theorem command_frames:
  "pack_BB SYNC_BYTE GET_INFO = Inr [0xA5, 0x50]
   \<and> pack_BB SYNC_BYTE GET_HEALTH = Inr [0xA5, 0x52]
   \<and> pack_BB SYNC_BYTE STOP = Inr [0xA5, 0x25]
   \<and> pack_BB SYNC_BYTE RESET = Inr [0xA5, 0x40]
   \<and> pack_BB SYNC_BYTE SCAN = Inr [0xA5, 0x20]
   \<and> send_command GET_INFO s = (Inr (), s\<lparr>tx := tx s @ [0xA5, 0x50]\<rparr>)
   \<and> send_command GET_HEALTH s = (Inr (), s\<lparr>tx := tx s @ [0xA5, 0x52]\<rparr>)
   \<and> send_command STOP s = (Inr (), s\<lparr>tx := tx s @ [0xA5, 0x25]\<rparr>)
   \<and> send_command RESET s = (Inr (), s\<lparr>tx := tx s @ [0xA5, 0x40]\<rparr>)
   \<and> send_command SCAN s = (Inr (), s\<lparr>tx := tx s @ [0xA5, 0x20]\<rparr>)"
  by (simp add: send_command_def pack_BB_def serial_write_def SYNC_BYTE_def GET_INFO_def
      GET_HEALTH_def STOP_def RESET_def SCAN_def)

subsection \<open>The two scan loops\<close>

text \<open>
  C10. On every 5-byte frame the loops of the two scripts keep or discard alike, and a
  sample of \<open>3dplot.py\<close> is the sample of \<open>2dplot.py\<close> without its \<open>start_flag\<close>: same
  angle, same distance, same quality. The same holds for whole runs of the loops on any
  port.
\<close>

theorem decoders_agree:
  "decode_frame_3d [b0, b1, b2, b3, b4]
     = map_option sample_3d.truncate (decode_frame [b0, b1, b2, b3, b4])
   \<and> (decode_frame_3d [b0, b1, b2, b3, b4] = None)
     = (decode_frame [b0, b1, b2, b3, b4] = None)
   \<and> read_scan_data_3d n s
     = (map sample_3d.truncate (fst (read_scan_data n s)), snd (read_scan_data n s))
   \<and> angle (sample_3d.truncate x) = angle x
   \<and> distance (sample_3d.truncate x) = distance x
   \<and> quality (sample_3d.truncate x) = quality x"
  by (simp add: decode_frame_3d_truncate read_scan_data_3d_truncate sample_3d.truncate_def)

end
